theory Spec2Isabelle
  imports Main
begin

section \<open>Strings\<close>

text \<open>
  A Python \<open>str\<close> is modelled as a \<^typ>\<open>string\<close>: every \<^typ>\<open>char\<close> stands for one code
  point below 256, so \<^const>\<open>length\<close> is Python's \<open>len\<close> on such text. The helpers below
  are the \<open>str\<close> methods the analyser calls.
\<close>

definition newline :: char where
  "newline = CHR ''\<newline>''"

text \<open>\<open>str.isspace\<close> on one character: the code points below 256 that Python treats as
  whitespace (TAB to CR, FS to US and SPACE, NEL, NBSP).\<close>

definition isspace :: "char \<Rightarrow> bool" where
  "isspace c = (let n = (of_char c :: nat) in
     (9 \<le> n \<and> n \<le> 13) \<or> (28 \<le> n \<and> n \<le> 32) \<or> n = 133 \<or> n = 160)"

text \<open>\<open>str.lower\<close> on one character below 256.\<close>

definition lower :: "char \<Rightarrow> char" where
  "lower c = (let n = (of_char c :: nat) in
     if (65 \<le> n \<and> n \<le> 90) \<or> (192 \<le> n \<and> n \<le> 222 \<and> n \<noteq> 215)
     then char_of (n + 32) else c)"

definition lstrip :: "string \<Rightarrow> string" where
  "lstrip s = dropWhile isspace s"

definition rstrip :: "string \<Rightarrow> string" where
  "rstrip s = rev (dropWhile isspace (rev s))"

definition strip :: "string \<Rightarrow> string" where
  "strip s = rstrip (lstrip s)"

text \<open>\<open>s.rstrip(chars)\<close>: drop every trailing character that occurs in \<open>chars\<close>.\<close>

definition rstrip_chars :: "string \<Rightarrow> string \<Rightarrow> string" where
  "rstrip_chars s chars = rev (dropWhile (\<lambda>c. c \<in> set chars) (rev s))"

definition endswith :: "string \<Rightarrow> string \<Rightarrow> bool" where
  "endswith s suf = (length suf \<le> length s \<and> drop (length s - length suf) s = suf)"

text \<open>\<open>s.split(sep)\<close> for a separator of one character; the result is never empty.\<close>

fun split_chr :: "string \<Rightarrow> char \<Rightarrow> string list" where
  "split_chr [] sep = [[]]"
| "split_chr (c # cs) sep =
     (if c = sep then [] # split_chr cs sep
      else (case split_chr cs sep of
              [] \<Rightarrow> [[c]]
            | p # ps \<Rightarrow> (c # p) # ps))"

section \<open>Regular expressions\<close>

text \<open>
  The patterns of the analyser are kept as syntax trees and run by one matcher. Every
  repetition of Python's \<open>re\<close> is a counted one: \<open>r*\<close> is \<open>r{0,}\<close>, \<open>r+\<close> is \<open>r{1,}\<close>,
  \<open>r?\<close> is \<open>r{0,1}\<close>, \<open>r{,2}\<close> is \<open>r{0,2}\<close>. \<open>Alt\<close>, \<open>Eps\<close> and \<open>Nul\<close> are \<open>r|s\<close>, the empty
  pattern and the pattern that matches nothing; the matcher needs them for its
  intermediate results.
\<close>

datatype citem = Ch char | Rng char char | Space

datatype re =
    Chr char
  | In "citem list"
  | NotIn "citem list"
  | Dot
  | Cat re re
  | Rep nat "nat option" re
  | Alt re re
  | Eps
  | Nul

abbreviation Star :: "re \<Rightarrow> re" where
  "Star r \<equiv> Rep 0 None r"

abbreviation Plus :: "re \<Rightarrow> re" where
  "Plus r \<equiv> Rep 1 None r"

abbreviation Opt :: "re \<Rightarrow> re" where
  "Opt r \<equiv> Rep 0 (Some 1) r"

text \<open>A run of literal characters, such as \<open>class\<close>.\<close>

fun lits :: "string \<Rightarrow> re" where
  "lits [] = Eps"
| "lits [c] = Chr c"
| "lits (c # cs) = Cat (Chr c) (lits cs)"

fun in_item :: "citem \<Rightarrow> char \<Rightarrow> bool" where
  "in_item (Ch a) c = (a = c)"
| "in_item (Rng a b) c = ((of_char a :: nat) \<le> of_char c \<and> (of_char c :: nat) \<le> of_char b)"
| "in_item Space c = isspace c"

definition in_set :: "citem list \<Rightarrow> char \<Rightarrow> bool" where
  "in_set items c = list_ex (\<lambda>i. in_item i c) items"

text \<open>A literal character under the flag \<open>(?i)\<close> (\<open>ic\<close>) compares modulo case.\<close>

definition chr_eq :: "bool \<Rightarrow> char \<Rightarrow> char \<Rightarrow> bool" where
  "chr_eq ic a c = (if ic then lower a = lower c else a = c)"

fun in_count :: "nat \<Rightarrow> nat option \<Rightarrow> nat \<Rightarrow> bool" where
  "in_count m None k = (m \<le> k)"
| "in_count m (Some j) k = (m \<le> k \<and> k \<le> j)"

fun nullable :: "re \<Rightarrow> bool" where
  "nullable (Chr a) = False"
| "nullable (In items) = False"
| "nullable (NotIn items) = False"
| "nullable Dot = False"
| "nullable (Cat r s) = (nullable r \<and> nullable s)"
| "nullable (Rep m n r) = (m = 0 \<or> (nullable r \<and> in_count m n m))"
| "nullable (Alt r s) = (nullable r \<or> nullable s)"
| "nullable Eps = True"
| "nullable Nul = False"

fun cat :: "re \<Rightarrow> re \<Rightarrow> re" where
  "cat Nul s = Nul"
| "cat Eps s = s"
| "cat r s = Cat r s"

fun alt :: "re \<Rightarrow> re \<Rightarrow> re" where
  "alt Nul s = s"
| "alt r Nul = r"
| "alt r s = Alt r s"

fun dec :: "nat option \<Rightarrow> nat option" where
  "dec None = None"
| "dec (Some k) = Some (k - 1)"

text \<open>What is left of a pattern once it has read the character \<open>c\<close>. \<open>Dot\<close> reads
  anything but a newline (no \<open>DOTALL\<close> flag is used).\<close>

fun deriv :: "bool \<Rightarrow> char \<Rightarrow> re \<Rightarrow> re" where
  "deriv ic c (Chr a) = (if chr_eq ic a c then Eps else Nul)"
| "deriv ic c (In items) = (if in_set items c then Eps else Nul)"
| "deriv ic c (NotIn items) = (if in_set items c then Nul else Eps)"
| "deriv ic c Dot = (if c = newline then Nul else Eps)"
| "deriv ic c (Cat r s) =
     (if nullable r then alt (cat (deriv ic c r) s) (deriv ic c s)
      else cat (deriv ic c r) s)"
| "deriv ic c (Rep m n r) =
     (if n = Some 0 then Nul else cat (deriv ic c r) (Rep (m - 1) (dec n) r))"
| "deriv ic c (Alt r s) = alt (deriv ic c r) (deriv ic c s)"
| "deriv ic c Eps = Nul"
| "deriv ic c Nul = Nul"

text \<open>
  A compiled pattern: the flag \<open>(?i)\<close>, a leading \<open>^\<close>, the body, a trailing \<open>$\<close>.
  Without \<open>MULTILINE\<close>, \<open>$\<close> holds at the end of the string and just before a newline
  that is its last character.
\<close>

record pattern =
  ignorecase :: bool
  anchor_start :: bool
  body :: re
  anchor_end :: bool

definition at_end :: "bool \<Rightarrow> string \<Rightarrow> bool" where
  "at_end e rest = (\<not> e \<or> rest = [] \<or> rest = [newline])"

text \<open>Does the pattern match some prefix of the string?\<close>

fun match_here :: "bool \<Rightarrow> bool \<Rightarrow> re \<Rightarrow> string \<Rightarrow> bool" where
  "match_here ic e r [] = nullable r"
| "match_here ic e r (c # cs) =
     ((nullable r \<and> at_end e (c # cs)) \<or> match_here ic e (deriv ic c r) cs)"

text \<open>\<open>re.match(p, s)\<close> is not \<open>None\<close>: a match that starts at position 0, where \<open>^\<close>
  always holds.\<close>

definition re_match :: "pattern \<Rightarrow> string \<Rightarrow> bool" where
  "re_match p s = match_here (ignorecase p) (anchor_end p) (body p) s"

text \<open>\<open>re.search(p, s)\<close> is not \<open>None\<close>: a match that starts at any position, at
  position 0 only when the pattern begins with \<open>^\<close>.\<close>

fun re_search :: "pattern \<Rightarrow> string \<Rightarrow> bool" where
  "re_search p [] = re_match p []"
| "re_search p (c # cs) = (re_match p (c # cs) \<or> (\<not> anchor_start p \<and> re_search p cs))"

definition plain :: "re \<Rightarrow> pattern" where
  "plain r = \<lparr>ignorecase = False, anchor_start = False, body = r, anchor_end = False\<rparr>"

subsection \<open>The patterns of the analyser\<close>

definition lower_az :: citem where
  "lower_az = Rng (CHR ''a'') (CHR ''z'')"

definition upper_AZ :: citem where
  "upper_AZ = Rng (CHR ''A'') (CHR ''Z'')"

definition digit_09 :: citem where
  "digit_09 = Rng (CHR ''0'') (CHR ''9'')"

text \<open>\<^verbatim>\<open>[^#]*[^ ]( ?#)\<close>\<close>

definition pat_spaces :: pattern where
  "pat_spaces = plain
     (Cat (Star (NotIn [Ch (CHR ''#'')]))
       (Cat (NotIn [Ch (CHR '' '')])
         (Cat (Opt (Chr (CHR '' ''))) (Chr (CHR ''#'')))))"

text \<open>\<^verbatim>\<open>(?i)# *todo\<close>\<close>

definition pat_todo :: pattern where
  "pat_todo = \<lparr>ignorecase = True, anchor_start = False,
     body = Cat (Chr (CHR ''#'')) (Cat (Star (Chr (CHR '' ''))) (lits ''todo'')),
     anchor_end = False\<rparr>"

text \<open>\<^verbatim>\<open>class[ ]{2,}\<close>\<close>

definition pat_class_spaces :: pattern where
  "pat_class_spaces = plain (Cat (lits ''class'') (Rep 2 None (In [Ch (CHR '' '')])))"

text \<open>\<^verbatim>\<open>\s*def[ ]{2,}\<close>\<close>

definition pat_def_spaces :: pattern where
  "pat_def_spaces = plain
     (Cat (Star (In [Space])) (Cat (lits ''def'') (Rep 2 None (In [Ch (CHR '' '')]))))"

text \<open>\<^verbatim>\<open>[^A-Z].*\<close>\<close>

definition pat_class_name :: pattern where
  "pat_class_name = plain (Cat (NotIn [upper_AZ]) (Star Dot))"

text \<open>\<^verbatim>\<open>[_]{,2}[^a-z_].*\<close>\<close>

definition pat_function_name :: pattern where
  "pat_function_name = plain
     (Cat (Rep 0 (Some 2) (In [Ch (CHR ''_'')]))
       (Cat (NotIn [lower_az, Ch (CHR ''_'')]) (Star Dot)))"

text \<open>\<^verbatim>\<open>[^a-z_].*\<close>\<close>

definition pat_argument_name :: pattern where
  "pat_argument_name = plain (Cat (NotIn [lower_az, Ch (CHR ''_'')]) (Star Dot))"

text \<open>\<^verbatim>\<open>^[a-z][a-z0-9]+(_[a-z0-9]+)*$\<close>\<close>

definition snake_body :: re where
  "snake_body =
     Cat (In [lower_az])
       (Cat (Plus (In [lower_az, digit_09]))
         (Star (Cat (Chr (CHR ''_'')) (Plus (In [lower_az, digit_09])))))"

definition pat_variable_name :: pattern where
  "pat_variable_name =
     \<lparr>ignorecase = False, anchor_start = True, body = snake_body, anchor_end = True\<rparr>"

section \<open>The analyser\<close>

subsection \<open>Violations and diagnostics\<close>

text \<open>
  The exception classes below \<open>StaticCodeAnalyzerError\<close>; each is raised with two
  arguments, the code and the message, which \<open>err.args[0]\<close> and \<open>err.args[1]\<close> read back.
\<close>

datatype StaticCodeAnalyzerError =
    TooLongLineError string string
  | IndentError string string
  | UnnecessarySemicolonError string string
  | NotEnoughSpacesError string string
  | TODOFoundError string string
  | TooManyBlankLinesError string string
  | TooManySpacesError string string
  | NameCaseError string string

fun args0 :: "StaticCodeAnalyzerError \<Rightarrow> string" where
  "args0 (TooLongLineError a b) = a"
| "args0 (IndentError a b) = a"
| "args0 (UnnecessarySemicolonError a b) = a"
| "args0 (NotEnoughSpacesError a b) = a"
| "args0 (TODOFoundError a b) = a"
| "args0 (TooManyBlankLinesError a b) = a"
| "args0 (TooManySpacesError a b) = a"
| "args0 (NameCaseError a b) = a"

fun args1 :: "StaticCodeAnalyzerError \<Rightarrow> string" where
  "args1 (TooLongLineError a b) = b"
| "args1 (IndentError a b) = b"
| "args1 (UnnecessarySemicolonError a b) = b"
| "args1 (NotEnoughSpacesError a b) = b"
| "args1 (TODOFoundError a b) = b"
| "args1 (TooManyBlankLinesError a b) = b"
| "args1 (TooManySpacesError a b) = b"
| "args1 (NameCaseError a b) = b"

text \<open>
  One printed line \<open>{file}: Line {number_line}: {code} {error}\<close>, kept as the four values
  that \<open>__print_error\<close> formats. The output of a run is the list of these in the order
  they are printed.
\<close>

record diagnostic =
  diag_file :: string
  diag_line :: nat
  diag_code :: string
  diag_message :: string

definition print_error :: "string \<Rightarrow> nat \<Rightarrow> string \<Rightarrow> string \<Rightarrow> diagnostic" where
  "print_error file number_line code error =
     \<lparr>diag_file = file, diag_line = number_line, diag_code = code, diag_message = error\<rparr>"

text \<open>A name between apostrophes, as the messages show it.\<close>

definition quoted :: "string \<Rightarrow> string" where
  "quoted s = CHR 0x27 # s @ [CHR 0x27]"

subsection \<open>The analyser object\<close>

record analyzer =
  path_file :: string
  count_blank_lines_in_row :: nat

definition init :: "string \<Rightarrow> analyzer" where
  "init path = \<lparr>path_file = path, count_blank_lines_in_row = 0\<rparr>"

subsection \<open>Line rules\<close>

text \<open>A rule either returns (\<open>None\<close>) or raises (\<open>Some\<close> of the exception).\<close>

definition check_long :: "string \<Rightarrow> StaticCodeAnalyzerError option" where
  "check_long line =
     (let long = 79 in
      if length line > long then Some (TooLongLineError ''S001'' ''Too long'') else None)"

definition check_indentation :: "string \<Rightarrow> StaticCodeAnalyzerError option" where
  "check_indentation line =
     (if line \<noteq> [newline] \<and> (length line - length (lstrip line)) mod 4 \<noteq> 0
      then Some (IndentError ''S002'' ''Indentation is not a multiple of four'')
      else None)"

text \<open>\<open>parts_line[0]\<close>: \<open>split\<close> never returns an empty list, so the first case is not
  reached.\<close>

definition check_semicolon :: "string \<Rightarrow> StaticCodeAnalyzerError option" where
  "check_semicolon line =
     (let parts_line = split_chr line (CHR ''#'');
          part0 = (case parts_line of [] \<Rightarrow> [] | p # ps \<Rightarrow> p)
      in if endswith (rstrip_chars (rstrip_chars part0 [newline]) '' '') '';''
         then Some (UnnecessarySemicolonError ''S003'' ''Unnecessary semicolon'')
         else None)"

definition check_spaces :: "string \<Rightarrow> StaticCodeAnalyzerError option" where
  "check_spaces line =
     (if re_match pat_spaces line
      then Some (NotEnoughSpacesError ''S004'' ''At least two spaces required before inline'')
      else None)"

definition check_todo_existing :: "string \<Rightarrow> StaticCodeAnalyzerError option" where
  "check_todo_existing line =
     (if re_search pat_todo line then Some (TODOFoundError ''S005'' ''TODO found'') else None)"

text \<open>The one rule with state: it returns the analyser with its counter updated.\<close>

definition check_blank_lines ::
  "analyzer \<Rightarrow> string \<Rightarrow> StaticCodeAnalyzerError option \<times> analyzer" where
  "check_blank_lines self line =
     (if strip line = []
      then (None, self\<lparr>count_blank_lines_in_row := count_blank_lines_in_row self + 1\<rparr>)
      else if count_blank_lines_in_row self > 2
      then (Some (TooManyBlankLinesError ''S006''
                    ''More than two blank lines preceding a code line''),
            self\<lparr>count_blank_lines_in_row := 0\<rparr>)
      else (None, self\<lparr>count_blank_lines_in_row := 0\<rparr>))"

definition check_class_declaration_spaces :: "string \<Rightarrow> StaticCodeAnalyzerError option" where
  "check_class_declaration_spaces line =
     (if re_match pat_class_spaces line
      then Some (TooManySpacesError ''S007'' (''Too many spaces after '' @ quoted ''class''))
      else None)"

definition check_function_declaration_spaces :: "string \<Rightarrow> StaticCodeAnalyzerError option" where
  "check_function_declaration_spaces line =
     (if re_match pat_def_spaces line
      then Some (TooManySpacesError ''S007'' (''Too many spaces after '' @ quoted ''def''))
      else None)"

type_synonym check_func = "analyzer \<Rightarrow> string \<Rightarrow> StaticCodeAnalyzerError option \<times> analyzer"

text \<open>A static method in the list of bound methods: it leaves the object alone.\<close>

definition static :: "(string \<Rightarrow> StaticCodeAnalyzerError option) \<Rightarrow> check_func" where
  "static f self line = (f line, self)"

definition check_funcs :: "check_func list" where
  "check_funcs =
     [static check_long,
      static check_indentation,
      static check_semicolon,
      static check_spaces,
      static check_todo_existing,
      check_blank_lines,
      static check_class_declaration_spaces,
      static check_function_declaration_spaces]"

text \<open>
  \<open>__check_errors\<close>: the \<open>try\<close> is inside the \<open>for\<close>, so a rule that raises has its
  diagnostic printed and the loop goes on with the next rule.
\<close>

fun check_errors_loop ::
  "check_func list \<Rightarrow> analyzer \<Rightarrow> nat \<Rightarrow> string \<Rightarrow> diagnostic list \<times> analyzer" where
  "check_errors_loop [] self number_line line = ([], self)"
| "check_errors_loop (func # funcs) self number_line line =
     (case func self line of
        (None, self') \<Rightarrow> check_errors_loop funcs self' number_line line
      | (Some err, self') \<Rightarrow>
          (let (out, self'') = check_errors_loop funcs self' number_line line
           in (print_error (path_file self) number_line (args0 err) (args1 err) # out, self'')))"

definition check_errors :: "analyzer \<Rightarrow> nat \<Rightarrow> string \<Rightarrow> diagnostic list \<times> analyzer" where
  "check_errors self number_line line = check_errors_loop check_funcs self number_line line"

text \<open>\<open>for number_line, line in enumerate(f, start=1)\<close>, from line number \<open>n\<close> on.\<close>

fun scan_lines :: "analyzer \<Rightarrow> nat \<Rightarrow> string list \<Rightarrow> diagnostic list \<times> analyzer" where
  "scan_lines self n [] = ([], self)"
| "scan_lines self n (line # rest) =
     (let (out, self') = check_errors self n line;
          (out', self'') = scan_lines self' (Suc n) rest
      in (out @ out', self''))"

subsection \<open>Syntax trees\<close>

text \<open>
  What the analyser reads of a tree of Python's \<open>ast\<close>. An expression is a name, a list,
  dict or set display, or anything else; each carries its own line. A statement node is a
  class, a function, an \<open>async\<close> function, an assignment, or any other node with the
  nodes below it (\<open>if\<close>, \<open>for\<close>, \<open>try\<close> and its handlers, ...). A function carries
  \<open>node.args.args\<close> and \<open>node.args.defaults\<close>.
\<close>

datatype expr =
    Name (id: string) (expr_lineno: nat)
  | ListDisplay nat
  | DictDisplay nat
  | SetDisplay nat
  | OtherExpr nat

datatype arg = Arg (arg_name: string) (arg_lineno: nat)

datatype node =
    Module "node list"
  | ClassDef string nat "node list"
  | FunctionDef string nat "arg list" "expr list" "node list"
  | AsyncFunctionDef string nat "arg list" "expr list" "node list"
  | Assign "expr list" nat
  | Other "node list"

fun is_Name :: "expr \<Rightarrow> bool" where
  "is_Name (Name i l) = True"
| "is_Name e = False"

text \<open>\<open>isinstance(default, (ast.List, ast.Dict, ast.Set))\<close>\<close>

fun is_mutable :: "expr \<Rightarrow> bool" where
  "is_mutable (ListDisplay l) = True"
| "is_mutable (DictDisplay l) = True"
| "is_mutable (SetDisplay l) = True"
| "is_mutable e = False"

fun is_ClassDef :: "node \<Rightarrow> bool" where
  "is_ClassDef (ClassDef name lineno stmts) = True"
| "is_ClassDef n = False"

text \<open>\<open>ast.AsyncFunctionDef\<close> is a class of its own, not a subclass of
  \<open>ast.FunctionDef\<close>.\<close>

fun is_FunctionDef :: "node \<Rightarrow> bool" where
  "is_FunctionDef (FunctionDef name lineno as ds stmts) = True"
| "is_FunctionDef n = False"

fun is_Assign :: "node \<Rightarrow> bool" where
  "is_Assign (Assign ts lineno) = True"
| "is_Assign n = False"

fun targets :: "node \<Rightarrow> expr list" where
  "targets (Assign ts lineno) = ts"
| "targets n = []"

text \<open>
  \<open>ast.iter_child_nodes\<close>, restricted to the children that can hold statements:
  expressions and argument lists hold neither classes nor functions, and the loop of
  \<open>run\<close> skips them.
\<close>

fun iter_child_nodes :: "node \<Rightarrow> node list" where
  "iter_child_nodes (Module stmts) = stmts"
| "iter_child_nodes (ClassDef name lineno stmts) = stmts"
| "iter_child_nodes (FunctionDef name lineno as ds stmts) = stmts"
| "iter_child_nodes (AsyncFunctionDef name lineno as ds stmts) = stmts"
| "iter_child_nodes (Assign ts lineno) = []"
| "iter_child_nodes (Other stmts) = stmts"

text \<open>\<open>ast.walk\<close>: breadth first, with a queue.\<close>

function walk_queue :: "node list \<Rightarrow> node list" where
  "walk_queue [] = []"
| "walk_queue (n # todo) = n # walk_queue (todo @ iter_child_nodes n)"
  by pat_completeness auto
termination
proof (relation "measure (\<lambda>todo. sum_list (map (\<lambda>n. Suc (size n)) todo))")
  show "wf (measure (\<lambda>todo. sum_list (map (\<lambda>n. Suc (size n)) todo)))" by simp
next
  fix n :: node and todo :: "node list"
  have "sum_list (map (\<lambda>n. Suc (size n)) (iter_child_nodes n)) < Suc (size n)"
    by (cases n) (simp_all add: size_list_conv_sum_list sum_list_Suc)
  then show "(todo @ iter_child_nodes n, n # todo)
      \<in> measure (\<lambda>todo. sum_list (map (\<lambda>n. Suc (size n)) todo))"
    by simp
qed

definition walk :: "node \<Rightarrow> node list" where
  "walk tree = walk_queue [tree]"

subsection \<open>Tree rules\<close>

fun check_class_name :: "analyzer \<Rightarrow> node \<Rightarrow> diagnostic list" where
  "check_class_name self (ClassDef name lineno stmts) =
     (if re_match pat_class_name name
      then [print_error (path_file self) lineno ''S008''
              (''Class name '' @ quoted name @ '' should use CamelCase'')]
      else [])"
| "check_class_name self n = []"

fun check_function_name :: "analyzer \<Rightarrow> node \<Rightarrow> diagnostic list" where
  "check_function_name self (FunctionDef name lineno as ds stmts) =
     (if re_match pat_function_name name
      then [print_error (path_file self) lineno ''S009''
              (''Function name '' @ quoted name @ '' should use snake_case'')]
      else [])"
| "check_function_name self n = []"

fun check_arguments :: "analyzer \<Rightarrow> node \<Rightarrow> diagnostic list" where
  "check_arguments self (FunctionDef fname lineno as ds stmts) =
     (let names = map arg_name as in
      concat (map (\<lambda>name.
          if re_match pat_argument_name name
          then [print_error (path_file self) lineno ''S010''
                  (''Argument name '' @ quoted name @ '' should be snake_case'')]
          else []) names)
      @ concat (map (\<lambda>default.
          if is_mutable default
          then [print_error (path_file self) lineno ''S012''
                  ''The default argument value is mutable'']
          else []) ds))"
| "check_arguments self n = []"

fun check_function_variables :: "analyzer \<Rightarrow> node \<Rightarrow> diagnostic list" where
  "check_function_variables self (FunctionDef fname lineno as ds stmts) =
     (let assignments = filter is_Assign stmts in
      concat (map (\<lambda>child.
        let variables = filter is_Name (targets child) in
        concat (map (\<lambda>var.
          if \<not> re_match pat_variable_name (id var)
          then [print_error (path_file self) (expr_lineno var) ''S011''
                  (''Variable '' @ quoted (id var) @ '' in function should be snake_case'')]
          else []) variables)) assignments))"
| "check_function_variables self n = []"

text \<open>The body of the loop \<open>for node in ast.walk(tree)\<close>.\<close>

definition visit :: "analyzer \<Rightarrow> node \<Rightarrow> diagnostic list" where
  "visit self node =
     (if is_ClassDef node then check_class_name self node else [])
     @ (if is_FunctionDef node
        then check_function_name self node @ check_arguments self node
             @ check_function_variables self node
        else [])"

subsection \<open>Running the analyser\<close>

text \<open>
  A file as \<open>run\<close> sees it: its physical lines, as iterating the file yields them, and
  what \<open>ast.parse\<close> makes of its text, \<open>None\<close> when the parser raises. The parser runs
  first, so a file that does not parse prints nothing.
\<close>

datatype exception = SyntaxError

record source =
  source_lines :: "string list"
  source_tree :: "node option"

definition run :: "analyzer \<Rightarrow> source \<Rightarrow> exception + diagnostic list \<times> analyzer" where
  "run self src =
     (case source_tree src of
        None \<Rightarrow> Inl SyntaxError
      | Some tree \<Rightarrow>
          (let (out, self') = scan_lines self 1 (source_lines src)
           in Inr (out @ concat (map (visit self') (walk tree)), self')))"

text \<open>\<open>call_analyzer_error\<close> makes a new analyser for each path and drops it after the
  run.\<close>

definition call_analyzer_error :: "string \<times> source \<Rightarrow> exception + diagnostic list" where
  "call_analyzer_error f =
     (let error_checking = init (fst f) in
      case run error_checking (snd f) of
        Inl e \<Rightarrow> Inl e
      | Inr (out, self') \<Rightarrow> Inr out)"

text \<open>
  The main loop over the files found, in the order they are visited: what has been
  printed, and the exception that ended the process, if any.
\<close>

fun main :: "(string \<times> source) list \<Rightarrow> diagnostic list \<times> exception option" where
  "main [] = ([], None)"
| "main (f # files) =
     (case call_analyzer_error f of
        Inl e \<Rightarrow> ([], Some e)
      | Inr out \<Rightarrow> (let (out', e) = main files in (out @ out', e)))"

section \<open>What the rules mean\<close>

text \<open>
  The definitions of this section are not part of the program: they say, in the words of
  its description, what a pattern matches and what a blank line is; the theorems below
  compare the program with them.
\<close>

subsection \<open>The language of a pattern\<close>

definition conc :: "string set \<Rightarrow> string set \<Rightarrow> string set" where
  "conc A B = {u @ v | u v. u \<in> A \<and> v \<in> B}"

fun pow :: "string set \<Rightarrow> nat \<Rightarrow> string set" where
  "pow A 0 = {[]}"
| "pow A (Suc k) = conc A (pow A k)"

text \<open>The strings a pattern matches in full.\<close>

fun lang :: "bool \<Rightarrow> re \<Rightarrow> string set" where
  "lang ic (Chr a) = {[c] | c. chr_eq ic a c}"
| "lang ic (In items) = {[c] | c. in_set items c}"
| "lang ic (NotIn items) = {[c] | c. \<not> in_set items c}"
| "lang ic Dot = {[c] | c. c \<noteq> newline}"
| "lang ic (Cat r s) = conc (lang ic r) (lang ic s)"
| "lang ic (Rep m n r) = (\<Union>k \<in> {k. in_count m n k}. pow (lang ic r) k)"
| "lang ic (Alt r s) = lang ic r \<union> lang ic s"
| "lang ic Eps = {[]}"
| "lang ic Nul = {}"

subsection \<open>Lines and names\<close>

text \<open>A blank line: empty, or nothing but whitespace.\<close>

definition blank :: "string \<Rightarrow> bool" where
  "blank line = list_all isspace line"

text \<open>What a rule contributes to the output of a line: nothing, or its one diagnostic.\<close>

definition report :: "string \<Rightarrow> nat \<Rightarrow> StaticCodeAnalyzerError option \<Rightarrow> diagnostic list" where
  "report file number_line r =
     (case r of
        None \<Rightarrow> []
      | Some err \<Rightarrow> [print_error file number_line (args0 err) (args1 err)])"

(*SPEC-DEFS*)

section \<open>The matcher is correct\<close>

lemma conc_iff: "w \<in> conc A B \<longleftrightarrow> (\<exists>u v. w = u @ v \<and> u \<in> A \<and> v \<in> B)"
  by (auto simp: conc_def)

lemma nil_in_conc: "[] \<in> conc A B \<longleftrightarrow> [] \<in> A \<and> [] \<in> B"
  by (auto simp: conc_iff)

lemma nil_in_pow: "[] \<in> pow A k \<longleftrightarrow> k = 0 \<or> [] \<in> A"
  by (induction k) (auto simp: nil_in_conc)

lemma nullable_lang: "nullable r \<longleftrightarrow> [] \<in> lang ic r"
proof (induction r)
  case (Rep m n r)
  have "[] \<in> lang ic (Rep m n r) \<longleftrightarrow> (\<exists>k. in_count m n k \<and> (k = 0 \<or> [] \<in> lang ic r))"
    by (simp add: nil_in_pow)
  also have "\<dots> \<longleftrightarrow> m = 0 \<or> ([] \<in> lang ic r \<and> in_count m n m)"
  proof (cases n)
    case None
    then show ?thesis by auto
  next
    case (Some j)
    then show ?thesis by auto
  qed
  finally show ?case using Rep by simp
qed (auto simp: nil_in_conc)

lemma lang_cat: "lang ic (cat r s) = conc (lang ic r) (lang ic s)"
  by (induction r s rule: cat.induct) (auto simp: conc_iff)

lemma lang_alt: "lang ic (alt r s) = lang ic r \<union> lang ic s"
  by (induction r s rule: alt.induct) auto

lemma cons_in_conc:
  "c # w \<in> conc A B \<longleftrightarrow>
     ([] \<in> A \<and> c # w \<in> B) \<or> w \<in> conc {u. c # u \<in> A} B"
proof
  assume "c # w \<in> conc A B"
  then obtain u v where uv: "c # w = u @ v" "u \<in> A" "v \<in> B"
    by (auto simp: conc_iff)
  show "([] \<in> A \<and> c # w \<in> B) \<or> w \<in> conc {u. c # u \<in> A} B"
  proof (cases u)
    case Nil
    with uv show ?thesis by simp
  next
    case (Cons a u')
    with uv have "w = u' @ v" "c # u' \<in> A" by auto
    with uv(3) show ?thesis by (auto simp: conc_iff)
  qed
next
  assume "([] \<in> A \<and> c # w \<in> B) \<or> w \<in> conc {u. c # u \<in> A} B"
  then show "c # w \<in> conc A B"
  proof
    assume "[] \<in> A \<and> c # w \<in> B"
    then have "[] @ (c # w) \<in> conc A B" unfolding conc_iff by blast
    then show ?thesis by simp
  next
    assume "w \<in> conc {u. c # u \<in> A} B"
    then obtain u v where "w = u @ v" "c # u \<in> A" "v \<in> B"
      by (auto simp: conc_iff)
    then have "(c # u) @ v \<in> conc A B" unfolding conc_iff by blast
    with \<open>w = u @ v\<close> show ?thesis by simp
  qed
qed

lemma pow_grow: "[] \<in> A \<Longrightarrow> pow A k \<subseteq> pow A (Suc k)"
proof
  fix w assume "[] \<in> A" "w \<in> pow A k"
  then have "[] @ w \<in> conc A (pow A k)" unfolding conc_iff by blast
  then show "w \<in> pow A (Suc k)" by simp
qed

lemma cons_in_pow:
  "c # w \<in> pow A (Suc k) \<longleftrightarrow> w \<in> conc {u. c # u \<in> A} (pow A k)"
proof (induction k)
  case 0
  show ?case by (simp add: cons_in_conc)
next
  case (Suc k)
  have "c # w \<in> pow A (Suc (Suc k)) \<longleftrightarrow>
        ([] \<in> A \<and> c # w \<in> pow A (Suc k)) \<or> w \<in> conc {u. c # u \<in> A} (pow A (Suc k))"
    using cons_in_conc [of c w A "pow A (Suc k)"] by simp
  moreover have "w \<in> conc {u. c # u \<in> A} (pow A (Suc k))"
    if "[] \<in> A" "c # w \<in> pow A (Suc k)"
  proof -
    from that Suc have "w \<in> conc {u. c # u \<in> A} (pow A k)" by simp
    then obtain u v where "w = u @ v" "c # u \<in> A" "v \<in> pow A k"
      by (auto simp: conc_iff)
    moreover from this pow_grow [OF that(1)] have "v \<in> pow A (Suc k)" by blast
    ultimately show ?thesis unfolding conc_iff by blast
  qed
  ultimately show ?case by blast
qed

lemma in_count_dec:
  "n \<noteq> Some 0 \<Longrightarrow> in_count m n (Suc k) \<longleftrightarrow> in_count (m - 1) (dec n) k"
  by (cases n) auto

lemma lang_deriv: "lang ic (deriv ic c r) = {w. c # w \<in> lang ic r}"
proof (induction r)
  case (Cat r s)
  then show ?case
    by (auto simp: lang_cat lang_alt cons_in_conc nullable_lang [of _ ic])
next
  case (Rep m n r)
  show ?case
  proof (cases "n = Some 0")
    case True
    then show ?thesis by auto
  next
    case False
    have "w \<in> lang ic (deriv ic c (Rep m n r)) \<longleftrightarrow> c # w \<in> lang ic (Rep m n r)" for w
    proof -
      have "c # w \<in> lang ic (Rep m n r) \<longleftrightarrow> (\<exists>k. in_count m n k \<and> c # w \<in> pow (lang ic r) k)"
        by simp
      also have "\<dots> \<longleftrightarrow> (\<exists>k. in_count m n (Suc k) \<and> c # w \<in> pow (lang ic r) (Suc k))"
      proof
        assume "\<exists>k. in_count m n k \<and> c # w \<in> pow (lang ic r) k"
        then obtain k where k: "in_count m n k" "c # w \<in> pow (lang ic r) k" by blast
        then have "k \<noteq> 0" by (cases k) auto
        then obtain k' where "k = Suc k'" by (cases k) auto
        with k show "\<exists>k. in_count m n (Suc k) \<and> c # w \<in> pow (lang ic r) (Suc k)" by blast
      qed blast
      also have "\<dots> \<longleftrightarrow> (\<exists>k. in_count (m - 1) (dec n) k
          \<and> w \<in> conc (lang ic (deriv ic c r)) (pow (lang ic r) k))"
        using False Rep by (simp add: in_count_dec cons_in_pow del: pow.simps)
      also have "\<dots> \<longleftrightarrow> w \<in> lang ic (deriv ic c (Rep m n r))"
        using False by (auto simp: lang_cat conc_iff)
      finally show ?thesis by simp
    qed
    then show ?thesis by blast
  qed
qed (auto simp: lang_alt)

text \<open>The matcher finds a prefix in the language of the pattern, followed by what a
  trailing \<open>$\<close> allows.\<close>

lemma match_here_iff:
  "match_here ic e r s \<longleftrightarrow> (\<exists>u v. s = u @ v \<and> u \<in> lang ic r \<and> at_end e v)"
proof (induction s arbitrary: r)
  case Nil
  show ?case by (simp add: nullable_lang [of _ ic] at_end_def)
next
  case (Cons c cs)
  have "(\<exists>u v. c # cs = u @ v \<and> u \<in> lang ic r \<and> at_end e v) \<longleftrightarrow>
        ([] \<in> lang ic r \<and> at_end e (c # cs)) \<or>
        (\<exists>u v. cs = u @ v \<and> c # u \<in> lang ic r \<and> at_end e v)"
    by (auto simp: Cons_eq_append_conv)
  then show ?case
    by (simp add: Cons nullable_lang [of _ ic] lang_deriv)
qed

lemma re_match_plain: "re_match (plain r) s \<longleftrightarrow> (\<exists>u v. s = u @ v \<and> u \<in> lang False r)"
  by (simp add: re_match_def plain_def match_here_iff at_end_def)

section \<open>The line scanner\<close>

lemma path_file_check_blank_lines [simp]:
  "path_file (snd (check_blank_lines self line)) = path_file self"
  by (simp add: check_blank_lines_def)

lemma check_errors_loop_step:
  "check_errors_loop (func # funcs) self number_line line =
     (report (path_file self) number_line (fst (func self line))
        @ fst (check_errors_loop funcs (snd (func self line)) number_line line),
      snd (check_errors_loop funcs (snd (func self line)) number_line line))"
  by (simp add: report_def split: option.split prod.split)

text \<open>One line through the eight rules: each rule adds what it reports, and only the
  blank-line rule changes the analyser.\<close>

lemma check_errors_unfold:
  "check_errors self number_line line =
     (report (path_file self) number_line (check_long line)
      @ report (path_file self) number_line (check_indentation line)
      @ report (path_file self) number_line (check_semicolon line)
      @ report (path_file self) number_line (check_spaces line)
      @ report (path_file self) number_line (check_todo_existing line)
      @ report (path_file self) number_line (fst (check_blank_lines self line))
      @ report (path_file self) number_line (check_class_declaration_spaces line)
      @ report (path_file self) number_line (check_function_declaration_spaces line),
      snd (check_blank_lines self line))"
  unfolding check_errors_def check_funcs_def
  by (simp only: check_errors_loop_step check_errors_loop.simps static_def fst_conv snd_conv
      path_file_check_blank_lines append_Nil2)

lemma length_report: "length (report file n r) \<le> 1"
  by (simp add: report_def split: option.split)

text \<open>The facts that evaluate the line rules on a given line.\<close>

lemmas line_eval = check_long_def check_indentation_def check_semicolon_def check_spaces_def
  check_todo_existing_def check_blank_lines_def check_class_declaration_spaces_def
  check_function_declaration_spaces_def re_match_def plain_def pat_spaces_def pat_todo_def
  pat_class_spaces_def pat_def_spaces_def in_set_def chr_eq_def at_end_def newline_def
  lstrip_def rstrip_def strip_def rstrip_chars_def endswith_def isspace_def lower_def
  report_def print_error_def init_def quoted_def Let_def

subsection \<open>C1: every rule reports on its own\<close>

text \<open>
  C1 says that a line yields at most one diagnostic, the one of the first rule that
  raises, and that the rules after it are skipped. The loop of \<open>__check_errors\<close> catches
  the exception inside its body, so it is otherwise: the line \<^verbatim>\<open>x = 1; # todo\<close> is
  reported three times, by S003, S004 and S005.
\<close>

theorem line_rules_first_match_counterexample:
  "map diag_code (fst (check_errors (init ''f.py'') 1 ''x = 1; # todo\<newline>''))
     = [''S003'', ''S004'', ''S005'']"
  by (simp add: check_errors_unfold line_eval)

text \<open>
  C1, amended: for every line the eight rules all run, in the order S001, S002, S003,
  S004, S005, S006, S007a, S007b; each rule that raises has its own diagnostic printed,
  in that order, and no rule is skipped because an earlier one raised. A line yields at
  most eight diagnostics.
\<close>

theorem line_rules_all_run:
  "fst (check_errors self number_line line) =
     concat (map (report (path_file self) number_line)
       [check_long line,
        check_indentation line,
        check_semicolon line,
        check_spaces line,
        check_todo_existing line,
        fst (check_blank_lines self line),
        check_class_declaration_spaces line,
        check_function_declaration_spaces line])
   \<and> length (fst (check_errors self number_line line)) \<le> 8"
proof -
  let ?r = "report (path_file self) number_line"
  have "length (?r a @ ?r b @ ?r c @ ?r d @ ?r e @ ?r f @ ?r g @ ?r h) \<le> 8" for a b c d e f g h
    using length_report [of "path_file self" number_line a]
      length_report [of "path_file self" number_line b]
      length_report [of "path_file self" number_line c]
      length_report [of "path_file self" number_line d]
      length_report [of "path_file self" number_line e]
      length_report [of "path_file self" number_line f]
      length_report [of "path_file self" number_line g]
      length_report [of "path_file self" number_line h]
    by simp
  then show ?thesis by (simp add: check_errors_unfold)
qed

theorem line_rules_all_run_witness:
  "fst (check_errors (init ''f.py'') 7 ''x = 1; # todo\<newline>'') =
     [print_error ''f.py'' 7 ''S003'' ''Unnecessary semicolon'',
      print_error ''f.py'' 7 ''S004'' ''At least two spaces required before inline'',
      print_error ''f.py'' 7 ''S005'' ''TODO found'']"
  using line_rules_all_run [of "init ''f.py''" 7 "''x = 1; # todo\<newline>''"]
  by (simp add: line_eval)

end
